theory Spec2Isabelle
  imports Complex_Main "HOL-Library.Sublist"
begin

section \<open>Python strings and exceptions\<close>

text \<open>
  Strings are character lists over the ASCII alphabet: \<open>str.lower\<close>, \<open>str.upper\<close> and
  \<open>str.isalpha\<close> are modelled on the letters A-Z and a-z, every other character is left
  unchanged by the case mappings and is not alphabetic.
\<close>

datatype exn =
    ValueError string
  | ValidationError "string list"
  | AttributeError string
  | IndexError string
  | ExternalError string

fun str_exn :: "exn \<Rightarrow> string" where
  "str_exn (ValueError m) = m"
| "str_exn (ValidationError fields) = ''validation error for '' @ concat (map (\<lambda>f. f @ '' '') fields)"
| "str_exn (AttributeError m) = m"
| "str_exn (IndexError m) = m"
| "str_exn (ExternalError m) = m"

definition is_upper_ascii :: "char \<Rightarrow> bool" where
  "is_upper_ascii c = (let n = of_char c :: nat in 65 \<le> n \<and> n \<le> 90)"

definition is_lower_ascii :: "char \<Rightarrow> bool" where
  "is_lower_ascii c = (let n = of_char c :: nat in 97 \<le> n \<and> n \<le> 122)"

definition lower_char :: "char \<Rightarrow> char" where
  "lower_char c = (if is_upper_ascii c then char_of (of_char c + (32::nat)) else c)"

definition upper_char :: "char \<Rightarrow> char" where
  "upper_char c = (if is_lower_ascii c then char_of (of_char c - (32::nat)) else c)"

definition py_lower :: "string \<Rightarrow> string" where
  "py_lower s = map lower_char s"

definition py_upper :: "string \<Rightarrow> string" where
  "py_upper s = map upper_char s"

definition py_isalpha :: "string \<Rightarrow> bool" where
  \<comment> \<open>\<open>str.isalpha\<close>: at least one character and all of them letters\<close>
  "py_isalpha s = (s \<noteq> [] \<and> list_all (\<lambda>c. is_upper_ascii c \<or> is_lower_ascii c) s)"

fun py_in :: "string \<Rightarrow> string \<Rightarrow> bool" where
  \<comment> \<open>\<open>needle in hay\<close> on strings: \<open>needle\<close> occurs as a contiguous block\<close>
  "py_in needle [] = (needle = [])"
| "py_in needle (c # cs) = (prefix needle (c # cs) \<or> py_in needle cs)"

definition falsy_str :: "string option \<Rightarrow> bool" where
  \<comment> \<open>\<open>not x\<close> for an optional string: \<open>None\<close> and the empty string are false\<close>
  "falsy_str x = (case x of None \<Rightarrow> True | Some s \<Rightarrow> s = [])"


section \<open>Location resolver\<close>

text \<open>
  \<open>SerpAPIService.get_airport_suggestions\<close>: the city table in insertion order (the order
  a Python dict iterates in), a suggestion being the pair of its code and its name.
\<close>

type_synonym suggestion = "string \<times> string"

definition airport_mappings :: "(string \<times> suggestion list) list" where
  "airport_mappings =
    [(''new york'', [(''JFK'', ''John F. Kennedy International Airport''),
                     (''LGA'', ''LaGuardia Airport''),
                     (''EWR'', ''Newark Liberty International Airport'')]),
     (''london'', [(''LHR'', ''London Heathrow Airport''),
                   (''LGW'', ''London Gatwick Airport''),
                   (''STN'', ''London Stansted Airport'')]),
     (''paris'', [(''CDG'', ''Charles de Gaulle Airport''),
                  (''ORY'', ''Paris-Orly Airport'')]),
     (''tokyo'', [(''NRT'', ''Narita International Airport''),
                  (''HND'', ''Haneda Airport'')]),
     (''los angeles'', [(''LAX'', ''Los Angeles International Airport'')]),
     (''chicago'', [(''ORD'', ''O'' @ [CHR 0x27] @ ''Hare International Airport''),
                    (''MDW'', ''Midway International Airport'')]),
     (''miami'', [(''MIA'', ''Miami International Airport'')]),
     (''san francisco'', [(''SFO'', ''San Francisco International Airport'')]),
     (''boston'', [(''BOS'', ''Logan International Airport'')]),
     (''washington'', [(''DCA'', ''Ronald Reagan Washington National Airport''),
                       (''IAD'', ''Washington Dulles International Airport'')])]"

definition get_airport_suggestions :: "string \<Rightarrow> suggestion list" where
  "get_airport_suggestions query =
    (let query_lower = py_lower query;
         matched = concat (map snd (filter (\<lambda>(city, airports).
                      py_in query_lower city \<or> py_in city query_lower) airport_mappings));
         suggestions =
           (if matched = [] \<and> length query = 3 \<and> py_isalpha query
            then [(py_upper query, py_upper query @ '' Airport'')]
            else matched)
     in take 5 suggestions)"

text \<open>
  \<open>get_serpapi_service()\<close> either raises (no API key: \<open>SerpAPIService.__init__\<close> raises
  ValueError) or yields the service object; of the object the resolver uses the method
  \<open>get_airport_suggestions\<close> only, so the outcome of the accessor is an exception or that
  method.
\<close>

type_synonym service = "exn + (string \<Rightarrow> suggestion list)"

definition get_serpapi_service :: "string option \<Rightarrow> service" where
  \<comment> \<open>the argument is the value of the environment variable SERPAPI_API_KEY\<close>
  "get_serpapi_service api_key =
    (if falsy_str api_key
     then Inl (ValueError ''SerpAPI key is required. Set SERPAPI_API_KEY environment variable.'')
     else Inr get_airport_suggestions)"

definition resolve_airport_code :: "service \<Rightarrow> string \<Rightarrow> exn + string option" where
  \<comment> \<open>\<open>_resolve_airport_code\<close> of tools.py\<close>
  "resolve_airport_code svc location =
    (if length location = 3 \<and> py_isalpha location then Inr (Some (py_upper location))
     else (case svc of
             Inl e \<Rightarrow> Inl e
           | Inr suggest \<Rightarrow>
               (case suggest location of
                  [] \<Rightarrow> Inr None
                | s # _ \<Rightarrow> Inr (Some (fst s)))))"


section \<open>Dates\<close>

record date =
  year :: nat
  month :: nat
  day :: nat

definition date_less :: "date \<Rightarrow> date \<Rightarrow> bool" where
  "date_less a b =
    (year a < year b \<or> (year a = year b \<and>
      (month a < month b \<or> (month a = month b \<and> day a < day b))))"

definition date_le :: "date \<Rightarrow> date \<Rightarrow> bool" where
  "date_le a b = (date_less a b \<or> a = b)"

definition is_digit :: "char \<Rightarrow> bool" where
  "is_digit c = (let n = of_char c :: nat in 48 \<le> n \<and> n \<le> 57)"

definition digit_val :: "char \<Rightarrow> nat" where
  "digit_val c = of_char c - 48"

definition digits_val :: "string \<Rightarrow> nat" where
  "digits_val s = foldl (\<lambda>acc c. 10 * acc + digit_val c) 0 s"

definition is_leap :: "nat \<Rightarrow> bool" where
  "is_leap y = (y mod 4 = 0 \<and> (y mod 100 \<noteq> 0 \<or> y mod 400 = 0))"

definition days_in_month :: "nat \<Rightarrow> nat \<Rightarrow> nat" where
  "days_in_month y m =
    (if m = 2 then (if is_leap y then 29 else 28)
     else if m = 4 \<or> m = 6 \<or> m = 9 \<or> m = 11 then 30 else 31)"

definition match_month :: "string \<Rightarrow> nat option" where
  \<comment> \<open>the directive \<open>%m\<close>, regular expression \<open>1[0-2]|0[1-9]|[1-9]\<close>\<close>
  "match_month t =
    (case t of
       [a] \<Rightarrow> if is_digit a \<and> a \<noteq> CHR ''0'' then Some (digit_val a) else None
     | [a, b] \<Rightarrow>
         if a = CHR ''1'' \<and> (b = CHR ''0'' \<or> b = CHR ''1'' \<or> b = CHR ''2'') then Some (10 + digit_val b)
         else if a = CHR ''0'' \<and> is_digit b \<and> b \<noteq> CHR ''0'' then Some (digit_val b)
         else None
     | _ \<Rightarrow> None)"

definition match_day :: "string \<Rightarrow> nat option" where
  \<comment> \<open>the directive \<open>%d\<close>, regular expression \<open>3[0-1]|[1-2]\d|0[1-9]|[1-9]| [1-9]\<close>\<close>
  "match_day t =
    (case t of
       [a] \<Rightarrow> if is_digit a \<and> a \<noteq> CHR ''0'' then Some (digit_val a) else None
     | [a, b] \<Rightarrow>
         if a = CHR ''3'' \<and> (b = CHR ''0'' \<or> b = CHR ''1'') then Some (30 + digit_val b)
         else if (a = CHR ''1'' \<or> a = CHR ''2'') \<and> is_digit b then Some (10 * digit_val a + digit_val b)
         else if (a = CHR ''0'' \<or> a = CHR '' '') \<and> is_digit b \<and> b \<noteq> CHR ''0'' then Some (digit_val b)
         else None
     | _ \<Rightarrow> None)"

definition strptime_date :: "string \<Rightarrow> exn + date" where
  \<comment> \<open>\<open>datetime.strptime(s, "%Y-%m-%d").date()\<close>: four digits, a month and a day that
      match their directives, nothing left over, and a date of the calendar (year 1 at least)\<close>
  "strptime_date s =
    (let bad = Inl (ValueError (''time data does not match format: '' @ s));
         y = take 4 s; r = drop 4 s
     in if length y = 4 \<and> list_all is_digit y \<and> r \<noteq> [] \<and> hd r = CHR ''-''
        then (let r1 = tl r;
                  mt = takeWhile (\<lambda>c. c \<noteq> CHR ''-'') r1;
                  r2 = dropWhile (\<lambda>c. c \<noteq> CHR ''-'') r1
              in if r2 = [] then bad
                 else (case (match_month mt, match_day (tl r2)) of
                         (Some m, Some d) \<Rightarrow>
                           if 1 \<le> digits_val y \<and> d \<le> days_in_month (digits_val y) m
                           then Inr \<lparr>year = digits_val y, month = m, day = d\<rparr>
                           else Inl (ValueError ''day is out of range for month'')
                       | _ \<Rightarrow> bad))
        else bad)"


section \<open>Flight search request (models/flight.py)\<close>

datatype TripType = ONE_WAY | ROUND_TRIP | MULTI_CITY

datatype SortBy = TOP_FLIGHTS | PRICE | DEPARTURE_TIME | ARRIVAL_TIME | DURATION | EMISSIONS

datatype Stops = ANY | NONSTOP | ONE_STOP_OR_FEWER | TWO_STOPS_OR_FEWER

datatype TravelClass = ECONOMY | PREMIUM_ECONOMY | BUSINESS | FIRST

record FlightSearchRequest =
  fsr_departure_id :: string
  fsr_arrival_id :: string
  fsr_outbound_date :: date
  fsr_return_date :: "date option"
  fsr_adults :: int
  fsr_children :: int
  fsr_infants_in_seat :: int
  fsr_infants_on_lap :: int
  fsr_trip_type :: TripType
  fsr_travel_class :: TravelClass
  fsr_sort_by :: SortBy
  fsr_stops :: Stops
  fsr_max_price :: "int option"
  fsr_include_airlines :: "string option"
  fsr_exclude_airlines :: "string option"
  fsr_max_duration :: "int option"

text \<open>
  The validator of \<open>return_date\<close> receives in \<open>values\<close> the fields validated before it.
  The two it reads are \<open>trip_type\<close> and \<open>outbound_date\<close>; a field not yet validated is absent.
\<close>

record validated_values =
  vv_trip_type :: "TripType option"
  vv_outbound_date :: "date option"

definition validate_return_date :: "date option \<Rightarrow> validated_values \<Rightarrow> exn + date option" where
  "validate_return_date v values =
    (case vv_trip_type values of
       None \<Rightarrow> Inr v
     | Some t \<Rightarrow>
         if t = ROUND_TRIP then
           (case v of
              None \<Rightarrow> Inl (ValueError ''Return date is required for round trip flights'')
            | Some r \<Rightarrow>
                (case vv_outbound_date values of
                   None \<Rightarrow> Inr v
                 | Some ob \<Rightarrow>
                     if date_le r ob
                     then Inl (ValueError ''Return date must be after departure date'')
                     else Inr v))
         else Inr v)"

definition new_FlightSearchRequest ::
  "string \<Rightarrow> string \<Rightarrow> date \<Rightarrow> date option \<Rightarrow> int \<Rightarrow> TripType \<Rightarrow> TravelClass
     \<Rightarrow> exn + FlightSearchRequest" where
  \<comment> \<open>The constructor call of \<open>search_flights\<close>: the seven fields it passes, the others at
      their defaults. Fields are validated in the order of their declaration, so when
      \<open>return_date\<close> is validated \<open>outbound_date\<close> is in \<open>values\<close> and \<open>trip_type\<close>, declared
      later, is not. The failing fields are collected into one ValidationError.\<close>
  "new_FlightSearchRequest departure_id arrival_id outbound_date return_date adults trip_type travel_class =
    (let values = \<lparr>vv_trip_type = None, vv_outbound_date = Some outbound_date\<rparr>;
         errors =
           (case validate_return_date return_date values of
              Inl _ \<Rightarrow> [''return_date''] | Inr _ \<Rightarrow> [])
           @ (if 1 \<le> adults \<and> adults \<le> 9 then [] else [''adults''])
     in if errors = []
        then Inr \<lparr>fsr_departure_id = departure_id, fsr_arrival_id = arrival_id,
                  fsr_outbound_date = outbound_date, fsr_return_date = return_date,
                  fsr_adults = adults, fsr_children = 0, fsr_infants_in_seat = 0,
                  fsr_infants_on_lap = 0, fsr_trip_type = trip_type,
                  fsr_travel_class = travel_class, fsr_sort_by = TOP_FLIGHTS, fsr_stops = ANY,
                  fsr_max_price = None, fsr_include_airlines = None,
                  fsr_exclude_airlines = None, fsr_max_duration = None\<rparr>
        else Inl (ValidationError errors))"


section \<open>The flight search tool (agents/tools.py)\<close>

text \<open>
  The tool is modelled up to the call of the provider: it either returns an error payload
  \<open>{"error": text}\<close> without having called the provider, or it has built a request and
  hands it to \<open>get_serpapi_service().search_flights\<close>. What the provider answers and the
  summary formatted from the answer are not part of the model.
\<close>

datatype 'r tool_outcome = ToolError string | ProviderCall 'r

definition trip_type_map :: "(string \<times> TripType) list" where
  "trip_type_map = [(''one_way'', ONE_WAY), (''round_trip'', ROUND_TRIP), (''multi_city'', MULTI_CITY)]"

definition class_map :: "(string \<times> TravelClass) list" where
  "class_map = [(''economy'', ECONOMY), (''premium_economy'', PREMIUM_ECONOMY),
                (''business'', BUSINESS), (''first'', FIRST)]"

definition dict_get :: "(string \<times> 'v) list \<Rightarrow> string \<Rightarrow> 'v \<Rightarrow> 'v" where
  \<comment> \<open>\<open>d.get(k, default)\<close>\<close>
  "dict_get d k dflt = (case map_of d k of None \<Rightarrow> dflt | Some v \<Rightarrow> v)"

definition search_flights_try ::
  "service \<Rightarrow> string \<Rightarrow> string \<Rightarrow> string \<Rightarrow> string option \<Rightarrow> int \<Rightarrow> string \<Rightarrow> string
     \<Rightarrow> exn + FlightSearchRequest tool_outcome" where
  \<comment> \<open>the body of the outer \<open>try\<close>; \<open>Inl\<close> is an exception that reaches the outer handler\<close>
  "search_flights_try svc departure_location arrival_location departure_date return_date
      passengers trip_type travel_class =
    (case resolve_airport_code svc departure_location of
       Inl e \<Rightarrow> Inl e
     | Inr departure_code \<Rightarrow>
    (case resolve_airport_code svc arrival_location of
       Inl e \<Rightarrow> Inl e
     | Inr arrival_code \<Rightarrow>
    if falsy_str departure_code then
      Inr (ToolError (''Could not resolve departure location: '' @ departure_location
        @ ''. Please provide a valid airport code (e.g., JFK, LAX) or major city name.''))
    else if falsy_str arrival_code then
      Inr (ToolError (''Could not resolve arrival location: '' @ arrival_location
        @ ''. Please provide a valid airport code (e.g., JFK, LAX) or major city name.''))
    else
    (case strptime_date departure_date of
       Inl _ \<Rightarrow> Inr (ToolError (''Invalid departure date format: '' @ departure_date
                  @ ''. Please use YYYY-MM-DD format.''))
     | Inr outbound_date \<Rightarrow>
    (case (if falsy_str return_date then Inr None
           else (case strptime_date (the return_date) of
                   Inl _ \<Rightarrow> Inl (''Invalid return date format: '' @ the return_date
                              @ ''. Please use YYYY-MM-DD format.'')
                 | Inr r \<Rightarrow>
                     if date_le r outbound_date
                     then Inl ''Return date must be after departure date.''
                     else Inr (Some r))) of
       Inl msg \<Rightarrow> Inr (ToolError msg)
     | Inr return_date_obj \<Rightarrow>
    if trip_type = ''round_trip'' \<and> return_date_obj = None then
      Inr (ToolError ''Return date is required for round trip flights.'')
    else
    (case new_FlightSearchRequest (the departure_code) (the arrival_code) outbound_date
            return_date_obj passengers
            (dict_get trip_type_map trip_type ROUND_TRIP)
            (dict_get class_map travel_class ECONOMY) of
       Inl e \<Rightarrow> Inl e
     | Inr search_request \<Rightarrow> Inr (ProviderCall search_request))))))"

definition search_flights ::
  "service \<Rightarrow> string \<Rightarrow> string \<Rightarrow> string \<Rightarrow> string option \<Rightarrow> int \<Rightarrow> string \<Rightarrow> string
     \<Rightarrow> FlightSearchRequest tool_outcome" where
  "search_flights svc departure_location arrival_location departure_date return_date
      passengers trip_type travel_class =
    (case search_flights_try svc departure_location arrival_location departure_date
            return_date passengers trip_type travel_class of
       Inl e \<Rightarrow> ToolError (''Flight search failed: '' @ str_exn e)
     | Inr r \<Rightarrow> r)"


section \<open>Hotel search request (models/hotel.py)\<close>

datatype HotelSortBy = RELEVANCE | LOWEST_PRICE | HIGHEST_RATING | MOST_REVIEWED

datatype HotelRating = THREE_FIVE_PLUS | FOUR_PLUS | FOUR_FIVE_PLUS

record HotelSearchRequest =
  hsr_q :: string
  hsr_check_in_date :: date
  hsr_check_out_date :: date
  hsr_adults :: int
  hsr_children :: int
  hsr_currency :: string
  hsr_gl :: string
  hsr_hl :: string
  hsr_sort_by :: HotelSortBy
  hsr_min_price :: "int option"
  hsr_max_price :: "int option"
  hsr_rating :: "HotelRating option"
  hsr_hotel_class :: "string option"
  hsr_property_types :: "string option"
  hsr_amenities :: "string option"
  hsr_brands :: "string option"
  hsr_vacation_rentals :: bool
  hsr_bedrooms :: "int option"
  hsr_bathrooms :: "int option"
  hsr_free_cancellation :: bool
  hsr_special_offers :: bool
  hsr_eco_certified :: bool

definition validate_check_out_date :: "date \<Rightarrow> date option \<Rightarrow> exn + date" where
  \<comment> \<open>the second argument is \<open>info.data.get('check_in_date')\<close>\<close>
  "validate_check_out_date v check_in =
    (case check_in of
       None \<Rightarrow> Inr v
     | Some ci \<Rightarrow>
         if date_le v ci then Inl (ValueError ''Check-out date must be after check-in date'')
         else Inr v)"

definition validate_price_range :: "int option \<Rightarrow> int option \<Rightarrow> exn + int option" where
  \<comment> \<open>the second argument is \<open>info.data.get('min_price')\<close>\<close>
  "validate_price_range v min_price =
    (case v of
       None \<Rightarrow> Inr v
     | Some mx \<Rightarrow>
         (case min_price of
            None \<Rightarrow> Inr v
          | Some mn \<Rightarrow>
              if mx \<le> mn then Inl (ValueError ''Maximum price must be greater than minimum price'')
              else Inr v))"

definition new_HotelSearchRequest ::
  "string \<Rightarrow> date \<Rightarrow> date \<Rightarrow> int \<Rightarrow> HotelSortBy \<Rightarrow> int option \<Rightarrow> string option \<Rightarrow> bool
     \<Rightarrow> exn + HotelSearchRequest" where
  \<comment> \<open>the constructor call of \<open>search_hotels\<close>: the eight fields it passes, the others at
      their defaults; \<open>check_in_date\<close> and \<open>min_price\<close> are declared before the fields whose
      validators read them\<close>
  "new_HotelSearchRequest q check_in_date check_out_date adults sort_by max_price hotel_class
      vacation_rentals =
    (let errors =
           (case validate_check_out_date check_out_date (Some check_in_date) of
              Inl _ \<Rightarrow> [''check_out_date''] | Inr _ \<Rightarrow> [])
           @ (if 1 \<le> adults \<and> adults \<le> 20 then [] else [''adults''])
           @ (case max_price of
                None \<Rightarrow> []
              | Some mx \<Rightarrow>
                  if mx < 0 then [''max_price'']
                  else (case validate_price_range max_price None of
                          Inl _ \<Rightarrow> [''max_price''] | Inr _ \<Rightarrow> []))
     in if errors = []
        then Inr \<lparr>hsr_q = q, hsr_check_in_date = check_in_date,
                  hsr_check_out_date = check_out_date, hsr_adults = adults, hsr_children = 0,
                  hsr_currency = ''USD'', hsr_gl = ''us'', hsr_hl = ''en'', hsr_sort_by = sort_by,
                  hsr_min_price = None, hsr_max_price = max_price, hsr_rating = None,
                  hsr_hotel_class = hotel_class, hsr_property_types = None,
                  hsr_amenities = None, hsr_brands = None,
                  hsr_vacation_rentals = vacation_rentals, hsr_bedrooms = None,
                  hsr_bathrooms = None, hsr_free_cancellation = False,
                  hsr_special_offers = False, hsr_eco_certified = False\<rparr>
        else Inl (ValidationError errors))"


section \<open>The hotel search tool (agents/tools.py)\<close>

definition sort_map :: "(string \<times> HotelSortBy) list" where
  "sort_map = [(''relevance'', RELEVANCE), (''price'', LOWEST_PRICE),
               (''rating'', HIGHEST_RATING), (''reviews'', MOST_REVIEWED)]"

definition search_hotels_try ::
  "string \<Rightarrow> string \<Rightarrow> string \<Rightarrow> int \<Rightarrow> int \<Rightarrow> string \<Rightarrow> int option \<Rightarrow> string option \<Rightarrow> bool
     \<Rightarrow> exn + HotelSearchRequest tool_outcome" where
  \<comment> \<open>the body of the outer \<open>try\<close>, up to the call of the provider\<close>
  "search_hotels_try location check_in_date check_out_date guests rooms sort_by max_price
      hotel_class vacation_rental =
    (case strptime_date check_in_date of
       Inl _ \<Rightarrow> Inr (ToolError (''Invalid check-in date format: '' @ check_in_date
                  @ ''. Please use YYYY-MM-DD format.''))
     | Inr check_in \<Rightarrow>
    (case strptime_date check_out_date of
       Inl _ \<Rightarrow> Inr (ToolError (''Invalid check-out date format: '' @ check_out_date
                  @ ''. Please use YYYY-MM-DD format.''))
     | Inr check_out \<Rightarrow>
    if date_le check_out check_in then
      Inr (ToolError ''Check-out date must be after check-in date.'')
    else
    (case new_HotelSearchRequest location check_in check_out guests
            (dict_get sort_map sort_by RELEVANCE) max_price hotel_class vacation_rental of
       Inl e \<Rightarrow> Inl e
     | Inr search_request \<Rightarrow> Inr (ProviderCall search_request))))"

definition search_hotels ::
  "string \<Rightarrow> string \<Rightarrow> string \<Rightarrow> int \<Rightarrow> int \<Rightarrow> string \<Rightarrow> int option \<Rightarrow> string option \<Rightarrow> bool
     \<Rightarrow> HotelSearchRequest tool_outcome" where
  "search_hotels location check_in_date check_out_date guests rooms sort_by max_price
      hotel_class vacation_rental =
    (case search_hotels_try location check_in_date check_out_date guests rooms sort_by
            max_price hotel_class vacation_rental of
       Inl e \<Rightarrow> ToolError (''Hotel search failed: '' @ str_exn e)
     | Inr r \<Rightarrow> r)"

text \<open>
  The price range of the summary. Of a property the tool reads the fields below; rates are
  real numbers. \<open>min\<close> and \<open>max\<close> of Python raise ValueError on an empty list. The result is
  the pair of the two bounds (their rendering as \<open>$lo-$hi\<close> is left out), \<open>None\<close> when the
  field \<open>price_range\<close> keeps its initial value.
\<close>

record RateInfo =
  ri_lowest :: "string option"
  ri_extracted_lowest :: "real option"
  ri_before_taxes_fees :: "string option"
  ri_extracted_before_taxes_fees :: "real option"

record HotelProperty =
  hp_type :: string
  hp_name :: string
  hp_rate_per_night :: "RateInfo option"
  hp_hotel_class :: "string option"
  hp_overall_rating :: "real option"
  hp_reviews :: "int option"
  hp_location_rating :: "real option"
  hp_amenities :: "string list"

definition py_min :: "real list \<Rightarrow> exn + real" where
  "py_min xs = (case xs of [] \<Rightarrow> Inl (ValueError ''min() arg is an empty sequence'')
                | x # ys \<Rightarrow> Inr (fold min ys x))"

definition py_max :: "real list \<Rightarrow> exn + real" where
  "py_max xs = (case xs of [] \<Rightarrow> Inl (ValueError ''max() arg is an empty sequence'')
                | x # ys \<Rightarrow> Inr (fold max ys x))"

definition truthy_rate :: "HotelProperty \<Rightarrow> real option" where
  \<comment> \<open>\<open>prop.rate_per_night and prop.rate_per_night.extracted_lowest\<close>: the rate when both
      are true, a rate of zero being false\<close>
  "truthy_rate prop =
    (case hp_rate_per_night prop of
       None \<Rightarrow> None
     | Some ri \<Rightarrow>
         (case ri_extracted_lowest ri of
            None \<Rightarrow> None
          | Some x \<Rightarrow> if x = 0 then None else Some x))"

definition collect_prices :: "HotelProperty list \<Rightarrow> real list" where
  "collect_prices properties = List.map_filter truthy_rate properties"

definition hotel_price_range :: "HotelProperty list \<Rightarrow> exn + (real \<times> real) option" where
  "hotel_price_range properties =
    (let prices = collect_prices properties
     in if prices \<noteq> []
        then (case py_min prices of
                Inl e \<Rightarrow> Inl e
              | Inr lo \<Rightarrow> (case py_max prices of Inl e \<Rightarrow> Inl e | Inr hi \<Rightarrow> Inr (Some (lo, hi))))
        else Inr None)"

definition carries_rate :: "HotelProperty \<Rightarrow> bool" where
  \<comment> \<open>the property has an extracted lowest nightly rate\<close>
  "carries_rate prop =
    (case hp_rate_per_night prop of None \<Rightarrow> False | Some ri \<Rightarrow> ri_extracted_lowest ri \<noteq> None)"


section \<open>Chat turn: TravelAgent.process_message (agents/travel_agent.py)\<close>

text \<open>
  A tool call recorded by the runtime carries the name of the tool and its arguments, a
  dict of raw values. For each key the tool declares, the dict has no entry (\<open>Absent\<close>),
  the value null (\<open>Null\<close>), a value that the declared type of the field accepts (\<open>Valid\<close>,
  with the value as validated) or a value that it rejects (\<open>Invalid\<close>).
\<close>

datatype 'a arg = Absent | Null | Valid 'a | Invalid

record tool_args =
  ta_departure_location :: "string arg"
  ta_arrival_location :: "string arg"
  ta_departure_date :: "string arg"
  ta_return_date :: "string arg"
  ta_passengers :: "int arg"
  ta_trip_type :: "string arg"
  ta_travel_class :: "string arg"
  ta_location :: "string arg"
  ta_check_in_date :: "string arg"
  ta_check_out_date :: "string arg"
  ta_guests :: "int arg"
  ta_rooms :: "int arg"
  ta_hotel_class :: "string arg"
  ta_max_price :: "int arg"
  ta_vacation_rental :: "bool arg"

definition empty_args :: tool_args where
  \<comment> \<open>the empty dict, the default of \<open>tool_call.get('args', {})\<close>\<close>
  "empty_args =
    \<lparr>ta_departure_location = Absent, ta_arrival_location = Absent, ta_departure_date = Absent,
     ta_return_date = Absent, ta_passengers = Absent, ta_trip_type = Absent,
     ta_travel_class = Absent, ta_location = Absent, ta_check_in_date = Absent,
     ta_check_out_date = Absent, ta_guests = Absent, ta_rooms = Absent,
     ta_hotel_class = Absent, ta_max_price = Absent, ta_vacation_rental = Absent\<rparr>"

record tool_call =
  tc_name :: string
  tc_args :: tool_args

datatype message =
    AIMessage string "tool_call list"
  | HumanMessage string
  | ToolMessage string
  | SystemMessage string

datatype search_type = FLIGHT | HOTEL | BOTH

record FlightSearchParams =
  fsp_departure_location :: "string option"
  fsp_arrival_location :: "string option"
  fsp_departure_date :: "string option"
  fsp_return_date :: "string option"
  fsp_passengers :: int
  fsp_trip_type :: string
  fsp_travel_class :: string

record HotelSearchParams =
  hsp_location :: "string option"
  hsp_check_in_date :: "string option"
  hsp_check_out_date :: "string option"
  hsp_guests :: int
  hsp_rooms :: int
  hsp_hotel_class :: "string option"
  hsp_amenities :: "string option"
  hsp_max_price :: "int option"
  hsp_vacation_rental :: bool

record TravelSearchParams =
  tsp_search_type :: search_type
  tsp_departure_location :: "string option"
  tsp_arrival_location :: "string option"
  tsp_departure_date :: "string option"
  tsp_return_date :: "string option"
  tsp_passengers :: int
  tsp_trip_type :: string
  tsp_travel_class :: string
  tsp_hotel_location :: "string option"
  tsp_check_in_date :: "string option"
  tsp_check_out_date :: "string option"
  tsp_guests :: int
  tsp_rooms :: int
  tsp_hotel_class :: "string option"
  tsp_amenities :: "string option"
  tsp_max_price :: "int option"
  tsp_vacation_rental :: bool

fun optional_field :: "'a arg \<Rightarrow> 'a option option" where
  \<comment> \<open>\<open>args.get(key)\<close> validated by a field of type \<open>Optional[...]\<close>; the outer \<open>None\<close> is a
      rejected value\<close>
  "optional_field Absent = Some None"
| "optional_field Null = Some None"
| "optional_field (Valid x) = Some (Some x)"
| "optional_field Invalid = None"

fun required_field :: "'a arg \<Rightarrow> 'a \<Rightarrow> 'a option" where
  \<comment> \<open>\<open>args.get(key, default)\<close> validated by a field whose type does not admit \<open>None\<close>;
      \<open>None\<close> is a rejected value\<close>
  "required_field Absent dflt = Some dflt"
| "required_field Null dflt = None"
| "required_field (Valid x) dflt = Some x"
| "required_field Invalid dflt = None"

definition field_error :: "string \<Rightarrow> 'a option \<Rightarrow> string list" where
  "field_error name v = (case v of None \<Rightarrow> [name] | Some _ \<Rightarrow> [])"

definition flight_params_of :: "tool_args \<Rightarrow> exn + FlightSearchParams" where
  \<comment> \<open>the constructor call \<open>FlightSearchParams(...)\<close> on the raw arguments; the fields that
      fail are collected into one ValidationError\<close>
  "flight_params_of args =
    (let departure_location = optional_field (ta_departure_location args);
         arrival_location = optional_field (ta_arrival_location args);
         departure_date = optional_field (ta_departure_date args);
         return_date = optional_field (ta_return_date args);
         passengers = required_field (ta_passengers args) 1;
         trip_type = required_field (ta_trip_type args) ''round_trip'';
         travel_class = required_field (ta_travel_class args) ''economy'';
         errors = field_error ''departure_location'' departure_location
                @ field_error ''arrival_location'' arrival_location
                @ field_error ''departure_date'' departure_date
                @ field_error ''return_date'' return_date
                @ field_error ''passengers'' passengers
                @ field_error ''trip_type'' trip_type
                @ field_error ''travel_class'' travel_class
     in if errors = []
        then Inr \<lparr>fsp_departure_location = the departure_location,
                  fsp_arrival_location = the arrival_location,
                  fsp_departure_date = the departure_date,
                  fsp_return_date = the return_date,
                  fsp_passengers = the passengers,
                  fsp_trip_type = the trip_type,
                  fsp_travel_class = the travel_class\<rparr>
        else Inl (ValidationError errors))"

definition hotel_params_of :: "tool_args \<Rightarrow> exn + HotelSearchParams" where
  \<comment> \<open>the constructor call \<open>HotelSearchParams(...)\<close> on the raw arguments\<close>
  "hotel_params_of args =
    (let location = optional_field (ta_location args);
         check_in_date = optional_field (ta_check_in_date args);
         check_out_date = optional_field (ta_check_out_date args);
         guests = required_field (ta_guests args) 2;
         rooms = required_field (ta_rooms args) 1;
         hotel_class = optional_field (ta_hotel_class args);
         max_price = optional_field (ta_max_price args);
         vacation_rental = required_field (ta_vacation_rental args) False;
         errors = field_error ''location'' location
                @ field_error ''check_in_date'' check_in_date
                @ field_error ''check_out_date'' check_out_date
                @ field_error ''guests'' guests
                @ field_error ''rooms'' rooms
                @ field_error ''hotel_class'' hotel_class
                @ field_error ''max_price'' max_price
                @ field_error ''vacation_rental'' vacation_rental
     in if errors = []
        then Inr \<lparr>hsp_location = the location,
                  hsp_check_in_date = the check_in_date,
                  hsp_check_out_date = the check_out_date,
                  hsp_guests = the guests,
                  hsp_rooms = the rooms,
                  hsp_hotel_class = the hotel_class,
                  hsp_amenities = None,
                  hsp_max_price = the max_price,
                  hsp_vacation_rental = the vacation_rental\<rparr>
        else Inl (ValidationError errors))"

definition on_search_flights :: "TravelSearchParams option \<Rightarrow> FlightSearchParams \<Rightarrow> TravelSearchParams" where
  \<comment> \<open>"Create or update travel search params" of the \<open>search_flights\<close> branch\<close>
  "on_search_flights extracted_params flight_params =
    (case extracted_params of
       None \<Rightarrow>
         \<lparr>tsp_search_type = FLIGHT,
          tsp_departure_location = fsp_departure_location flight_params,
          tsp_arrival_location = fsp_arrival_location flight_params,
          tsp_departure_date = fsp_departure_date flight_params,
          tsp_return_date = fsp_return_date flight_params,
          tsp_passengers = fsp_passengers flight_params,
          tsp_trip_type = fsp_trip_type flight_params,
          tsp_travel_class = fsp_travel_class flight_params,
          tsp_hotel_location = None, tsp_check_in_date = None, tsp_check_out_date = None,
          tsp_guests = 2, tsp_rooms = 1, tsp_hotel_class = None, tsp_amenities = None,
          tsp_max_price = None, tsp_vacation_rental = False\<rparr>
     | Some ep \<Rightarrow>
         ep\<lparr>tsp_search_type := (if tsp_search_type ep = HOTEL then BOTH else FLIGHT),
            tsp_departure_location := fsp_departure_location flight_params,
            tsp_arrival_location := fsp_arrival_location flight_params,
            tsp_departure_date := fsp_departure_date flight_params,
            tsp_return_date := fsp_return_date flight_params,
            tsp_passengers := fsp_passengers flight_params,
            tsp_trip_type := fsp_trip_type flight_params,
            tsp_travel_class := fsp_travel_class flight_params\<rparr>)"

definition on_search_hotels :: "TravelSearchParams option \<Rightarrow> HotelSearchParams \<Rightarrow> TravelSearchParams" where
  \<comment> \<open>"Create or update travel search params" of the \<open>search_hotels\<close> branch\<close>
  "on_search_hotels extracted_params hotel_params =
    (case extracted_params of
       None \<Rightarrow>
         \<lparr>tsp_search_type = HOTEL,
          tsp_departure_location = None, tsp_arrival_location = None,
          tsp_departure_date = None, tsp_return_date = None, tsp_passengers = 1,
          tsp_trip_type = ''round_trip'', tsp_travel_class = ''economy'',
          tsp_hotel_location = hsp_location hotel_params,
          tsp_check_in_date = hsp_check_in_date hotel_params,
          tsp_check_out_date = hsp_check_out_date hotel_params,
          tsp_guests = hsp_guests hotel_params,
          tsp_rooms = hsp_rooms hotel_params,
          tsp_hotel_class = hsp_hotel_class hotel_params,
          tsp_amenities = None,
          tsp_max_price = hsp_max_price hotel_params,
          tsp_vacation_rental = hsp_vacation_rental hotel_params\<rparr>
     | Some ep \<Rightarrow>
         ep\<lparr>tsp_search_type := (if tsp_search_type ep = FLIGHT then BOTH else HOTEL),
            tsp_hotel_location := hsp_location hotel_params,
            tsp_check_in_date := hsp_check_in_date hotel_params,
            tsp_check_out_date := hsp_check_out_date hotel_params,
            tsp_guests := hsp_guests hotel_params,
            tsp_rooms := hsp_rooms hotel_params,
            tsp_hotel_class := hsp_hotel_class hotel_params,
            tsp_max_price := hsp_max_price hotel_params,
            tsp_vacation_rental := hsp_vacation_rental hotel_params\<rparr>)"

definition on_tool_call :: "TravelSearchParams option \<Rightarrow> tool_call \<Rightarrow> exn + TravelSearchParams option" where
  \<comment> \<open>one round of the inner loop \<open>for tool_call in msg.tool_calls\<close>; \<open>Inl\<close> is the
      exception of a constructor, which ends the iteration\<close>
  "on_tool_call extracted_params tool_call =
    (if tc_name tool_call = ''search_flights''
     then (case flight_params_of (tc_args tool_call) of
             Inl e \<Rightarrow> Inl e
           | Inr flight_params \<Rightarrow> Inr (Some (on_search_flights extracted_params flight_params)))
     else if tc_name tool_call = ''search_hotels''
     then (case hotel_params_of (tc_args tool_call) of
             Inl e \<Rightarrow> Inl e
           | Inr hotel_params \<Rightarrow> Inr (Some (on_search_hotels extracted_params hotel_params)))
     else Inr extracted_params)"

fun tool_calls_of :: "message \<Rightarrow> tool_call list" where
  \<comment> \<open>\<open>msg.tool_calls\<close> where the message has them, nothing otherwise\<close>
  "tool_calls_of (AIMessage content calls) = calls"
| "tool_calls_of _ = []"

fun on_tool_calls :: "TravelSearchParams option \<Rightarrow> tool_call list \<Rightarrow> exn + TravelSearchParams option" where
  \<comment> \<open>the inner loop over the tool calls of one message\<close>
  "on_tool_calls extracted_params [] = Inr extracted_params"
| "on_tool_calls extracted_params (tool_call # calls) =
    (case on_tool_call extracted_params tool_call of
       Inl e \<Rightarrow> Inl e
     | Inr extracted_params' \<Rightarrow> on_tool_calls extracted_params' calls)"

fun on_messages :: "TravelSearchParams option \<Rightarrow> message list \<Rightarrow> exn + TravelSearchParams option" where
  \<comment> \<open>the outer loop \<open>for msg in messages\<close>\<close>
  "on_messages extracted_params [] = Inr extracted_params"
| "on_messages extracted_params (msg # msgs) =
    (case on_tool_calls extracted_params (tool_calls_of msg) of
       Inl e \<Rightarrow> Inl e
     | Inr extracted_params' \<Rightarrow> on_messages extracted_params' msgs)"

definition extract_params :: "message list \<Rightarrow> exn + TravelSearchParams option" where
  \<comment> \<open>the extraction pass, starting from \<open>extracted_params = None\<close>\<close>
  "extract_params messages = on_messages None messages"

fun ai_content :: "message \<Rightarrow> string option" where
  "ai_content (AIMessage content calls) = Some content"
| "ai_content _ = None"

definition last_ai_message :: "message list \<Rightarrow> string option" where
  \<comment> \<open>content of the first AIMessage of \<open>reversed(messages)\<close>\<close>
  "last_ai_message messages =
    (case List.map_filter ai_content (rev messages) of [] \<Rightarrow> None | c # _ \<Rightarrow> Some c)"

definition clarification_indicators :: "string list" where
  "clarification_indicators =
    [''what'', ''when'', ''where'', ''which'', ''how many'',
     ''need to know'', ''please provide'', ''can you tell me'',
     ''missing'', ''require'', ''specify'']"

definition clarification_scan :: "string \<Rightarrow> bool \<times> string list" where
  \<comment> \<open>the pair \<open>(needs_clarification, missing_params)\<close> computed from the reply text\<close>
  "clarification_scan response_content =
    (let response_lower = py_lower response_content
     in if list_ex (\<lambda>indicator. py_in indicator response_lower) clarification_indicators
        then (True,
          (if py_in ''departure'' response_lower \<or> py_in ''from'' response_lower
           then [''departure_location''] else [])
          @ (if py_in ''arrival'' response_lower \<or> py_in ''destination'' response_lower
                \<or> py_in ''to'' response_lower
             then [''arrival_location''] else [])
          @ (if py_in ''check-in'' response_lower \<or> py_in ''check in'' response_lower
             then [''check_in_date''] else [])
          @ (if py_in ''check-out'' response_lower \<or> py_in ''check out'' response_lower
             then [''check_out_date''] else [])
          @ (if py_in ''date'' response_lower \<or> py_in ''when'' response_lower
             then [''dates''] else [])
          @ (if py_in ''passenger'' response_lower \<or> py_in ''traveler'' response_lower
                \<or> py_in ''guest'' response_lower
             then [''passengers_or_guests''] else [])
          @ (if py_in ''location'' response_lower \<or> py_in ''where'' response_lower
             then [''location''] else []))
        else (False, []))"

record ChatRequest =
  rq_message :: string
  rq_thread_id :: "string option"

datatype search_results = SearchResults

record ChatResponse =
  cr_message :: string
  cr_thread_id :: string
  cr_flight_results :: "search_results option"
  cr_hotel_results :: "search_results option"
  cr_extracted_params :: "TravelSearchParams option"
  cr_needs_clarification :: bool
  cr_missing_params :: "string list"

text \<open>
  The agent runtime is a collaborator: the outcome of \<open>self.agent.invoke(inputs, config)\<close>,
  an exception or the messages of the conversation, is an argument of the model. The two
  clock readings are the texts of \<open>datetime.now().timestamp()\<close> in the body and in the
  handler.
\<close>

definition thread_id_or :: "string option \<Rightarrow> string \<Rightarrow> string" where
  \<comment> \<open>\<open>request.thread_id or f"thread_{...}"\<close>\<close>
  "thread_id_or tid clock = (if falsy_str tid then ''thread_'' @ clock else the tid)"

definition process_message_try :: "exn + message list \<Rightarrow> string \<Rightarrow> ChatRequest \<Rightarrow> exn + ChatResponse" where
  \<comment> \<open>the body of the \<open>try\<close>; \<open>Inl\<close> is an exception that reaches the handler\<close>
  "process_message_try invoked clock request =
    (let thread_id = thread_id_or (rq_thread_id request) clock
     in case invoked of
          Inl e \<Rightarrow> Inl e
        | Inr messages \<Rightarrow>
            if messages = [] then Inl (ValueError ''No response from agent'')
            else (case last_ai_message messages of
                    None \<Rightarrow> Inl (ValueError ''No AI response found'')
                  | Some response_content \<Rightarrow>
                      (case extract_params messages of
                         Inl e \<Rightarrow> Inl e
                       | Inr extracted_params \<Rightarrow>
                           Inr \<lparr>cr_message = response_content,
                                cr_thread_id = thread_id,
                                cr_flight_results = None,
                                cr_hotel_results = None,
                                cr_extracted_params = extracted_params,
                                cr_needs_clarification = fst (clarification_scan response_content),
                                cr_missing_params = snd (clarification_scan response_content)\<rparr>)))"

definition error_response :: "ChatRequest \<Rightarrow> string \<Rightarrow> exn \<Rightarrow> ChatResponse" where
  \<comment> \<open>the response built by the handler \<open>except Exception as e\<close>\<close>
  "error_response request clock e =
    \<lparr>cr_message = ''I apologize, but I encountered an error while processing your request: ''
        @ str_exn e @ ''. Please try again or rephrase your question.'',
     cr_thread_id = thread_id_or (rq_thread_id request) clock,
     cr_flight_results = None,
     cr_hotel_results = None,
     cr_extracted_params = None,
     cr_needs_clarification = True,
     cr_missing_params = []\<rparr>"

definition process_message :: "exn + message list \<Rightarrow> string \<Rightarrow> string \<Rightarrow> ChatRequest \<Rightarrow> exn + ChatResponse" where
  \<comment> \<open>\<open>Inl\<close> would be an exception leaving \<open>process_message\<close>\<close>
  "process_message invoked clock1 clock2 request =
    (case process_message_try invoked clock1 request of
       Inr response \<Rightarrow> Inr response
     | Inl e \<Rightarrow> Inr (error_response request clock2 e))"

datatype 'a http = Http200 'a | HTTPException nat string

definition send_message :: "exn option \<Rightarrow> exn + message list \<Rightarrow> string \<Rightarrow> string \<Rightarrow> ChatRequest \<Rightarrow> ChatResponse http" where
  \<comment> \<open>\<open>POST /chat/message\<close> of api/chat.py; the first argument tells whether
      \<open>get_travel_agent()\<close> raises\<close>
  "send_message agent_error invoked clock1 clock2 request =
    (case agent_error of
       Some e \<Rightarrow> HTTPException 500 (''Failed to process message: '' @ str_exn e)
     | None \<Rightarrow>
         (case process_message invoked clock1 clock2 request of
            Inl e \<Rightarrow> HTTPException 500 (''Failed to process message: '' @ str_exn e)
          | Inr response \<Rightarrow> Http200 response))"


section \<open>Rate limiter (core/dependencies.py)\<close>

text \<open>
  The ledger \<open>self.requests\<close> maps a key to its list of timestamps. \<open>is_allowed\<close> takes the
  ledger and the reading of \<open>time.time()\<close> and returns its answer with the new ledger.
\<close>

type_synonym ledger = "string \<rightharpoonup> real list"

definition prune :: "ledger \<Rightarrow> real \<Rightarrow> string \<Rightarrow> int \<Rightarrow> real list" where
  \<comment> \<open>the list stored by "Clean old requests"\<close>
  "prune requests now key window =
    (case requests key of
       Some stamps \<Rightarrow> filter (\<lambda>req_time. req_time > now - real_of_int window) stamps
     | None \<Rightarrow> [])"

definition is_allowed :: "ledger \<Rightarrow> real \<Rightarrow> string \<Rightarrow> int \<Rightarrow> int \<Rightarrow> bool \<times> ledger" where
  "is_allowed requests now key limit window =
    (let pruned = prune requests now key window;
         requests1 = requests(key \<mapsto> pruned)
     in if int (length pruned) \<ge> limit then (False, requests1)
        else (True, requests1(key \<mapsto> pruned @ [now])))"


section \<open>The debug endpoint POST /chat/extract-params\<close>

definition is_space :: "char \<Rightarrow> bool" where
  \<comment> \<open>the ASCII characters \<open>str.split()\<close> and \<open>str.strip()\<close> treat as whitespace\<close>
  "is_space c = (let n = of_char c :: nat in (9 \<le> n \<and> n \<le> 13) \<or> (28 \<le> n \<and> n \<le> 32))"

definition py_strip :: "string \<Rightarrow> string" where
  "py_strip s = rev (dropWhile is_space (rev (dropWhile is_space s)))"

fun split_ws :: "string \<Rightarrow> string \<Rightarrow> string list" where
  \<comment> \<open>\<open>str.split()\<close>: the maximal runs of non-whitespace; the first argument is the run
      being read, reversed\<close>
  "split_ws cur [] = (if cur = [] then [] else [rev cur])"
| "split_ws cur (c # cs) =
    (if is_space c then (if cur = [] then split_ws [] cs else rev cur # split_ws [] cs)
     else split_ws (c # cur) cs)"

function split_sep :: "string \<Rightarrow> string \<Rightarrow> string \<Rightarrow> string list" where
  \<comment> \<open>\<open>str.split(sep)\<close> for a separator that is not empty: cut at each occurrence, from the
      left; the second argument is the piece being read, reversed\<close>
  "split_sep sep cur [] = [rev cur]"
| "split_sep sep cur (c # cs) =
    (if sep \<noteq> [] \<and> prefix sep (c # cs)
     then rev cur # split_sep sep [] (drop (length sep) (c # cs))
     else split_sep sep (c # cur) cs)"
  by pat_completeness auto
termination
  by (relation "measure (\<lambda>(sep, cur, s). length s)") auto

definition is_date_text :: "string \<Rightarrow> bool" where
  \<comment> \<open>the pattern \<open>\d{4}-\d{2}-\d{2}\<close> on a text of ten characters\<close>
  "is_date_text t =
    (length t = 10 \<and> list_all is_digit (take 4 t) \<and> t ! 4 = CHR ''-''
     \<and> list_all is_digit (take 2 (drop 5 t)) \<and> t ! 7 = CHR ''-''
     \<and> list_all is_digit (drop 8 t))"

function findall_dates :: "string \<Rightarrow> string list" where
  \<comment> \<open>\<open>re.findall(date_pattern, s)\<close>: the matches from the left, without overlap\<close>
  "findall_dates s =
    (if length s < 10 then []
     else if is_date_text (take 10 s) then take 10 s # findall_dates (drop 10 s)
     else findall_dates (tl s))"
  by pat_completeness auto
termination
  by (relation "measure length") auto

definition py_index :: "'a list \<Rightarrow> nat \<Rightarrow> exn + 'a" where
  \<comment> \<open>\<open>xs[i]\<close> for an index that is not negative\<close>
  "py_index xs i = (if i < length xs then Inr (xs ! i) else Inl (IndexError ''list index out of range''))"

definition extract_locations :: "string \<Rightarrow> exn + (string \<times> string) option" where
  \<comment> \<open>"Extract locations (very basic)": the departure and the arrival, when both are set\<close>
  "extract_locations message_lower =
    (if py_in ''from'' message_lower \<and> py_in ''to'' message_lower then
       (case py_index (split_sep ''from'' [] message_lower) 1 of
          Inl e \<Rightarrow> Inl e
        | Inr after_from \<Rightarrow>
            (let parts = split_sep ''to'' [] after_from
             in if length parts \<ge> 2 then
                  (case py_index (split_ws [] (parts ! 1)) 0 of
                     Inl e \<Rightarrow> Inl e
                   | Inr w \<Rightarrow> Inr (Some (py_strip (parts ! 0), py_strip w)))
                else Inr None))
     else Inr None)"

definition extract_flight_params :: "string \<Rightarrow> exn + FlightSearchParams" where
  \<comment> \<open>\<open>FlightSearchAgent.extract_flight_params\<close> of agents/flight_agent.py\<close>
  "extract_flight_params message =
    (case extract_locations (py_lower message) of
       Inl e \<Rightarrow> Inl e
     | Inr locations \<Rightarrow>
         (let dates = findall_dates message
          in Inr \<lparr>fsp_departure_location = map_option fst locations,
                  fsp_arrival_location = map_option snd locations,
                  fsp_departure_date = (if dates \<noteq> [] then Some (dates ! 0) else None),
                  fsp_return_date = (if length dates > 1 then Some (dates ! 1) else None),
                  fsp_passengers = 1,
                  fsp_trip_type = ''round_trip'',
                  fsp_travel_class = ''economy''\<rparr>))"

text \<open>
  The two agent classes. \<open>TravelAgent\<close> defines \<open>process_message\<close>,
  \<open>get_conversation_state\<close> and \<open>clear_conversation\<close>; \<open>extract_flight_params\<close> is a method
  of the legacy \<open>FlightSearchAgent\<close> only, so looking it up on a \<open>TravelAgent\<close> raises
  AttributeError.
\<close>

datatype agent_class = TravelAgent | FlightSearchAgent

definition quoted :: "string \<Rightarrow> string" where
  \<comment> \<open>the text between two apostrophes\<close>
  "quoted s = [CHR 0x27] @ s @ [CHR 0x27]"

fun lookup_extract_flight_params :: "agent_class \<Rightarrow> exn + (string \<Rightarrow> exn + FlightSearchParams)" where
  "lookup_extract_flight_params TravelAgent =
     Inl (AttributeError (quoted ''TravelAgent'' @ '' object has no attribute ''
            @ quoted ''extract_flight_params''))"
| "lookup_extract_flight_params FlightSearchAgent = Inr extract_flight_params"

definition get_travel_agent :: "exn option \<Rightarrow> agent_class option \<Rightarrow> (exn + agent_class) \<times> agent_class option" where
  \<comment> \<open>The global \<open>_travel_agent\<close> is the state: it is created on the first use. The first
      argument tells whether the constructor \<open>TravelAgent()\<close> raises in this environment.\<close>
  "get_travel_agent ctor_error global_agent =
    (case global_agent of
       Some agent \<Rightarrow> (Inr agent, global_agent)
     | None \<Rightarrow>
         (case ctor_error of
            Some e \<Rightarrow> (Inl e, None)
          | None \<Rightarrow> (Inr TravelAgent, Some TravelAgent)))"

definition extract_params_endpoint ::
  "exn option \<Rightarrow> agent_class option \<Rightarrow> (string \<rightharpoonup> string)
     \<Rightarrow> (string \<times> FlightSearchParams) http \<times> agent_class option" where
  \<comment> \<open>the handler \<open>extract_flight_params\<close> of api/chat.py: the answer and the new global\<close>
  "extract_params_endpoint ctor_error global_agent request =
    (let message = (case request ''message'' of None \<Rightarrow> [] | Some m \<Rightarrow> m)
     in if message = [] then (HTTPException 400 ''Message is required'', global_agent)
        else (case get_travel_agent ctor_error global_agent of
                (Inl e, g) \<Rightarrow> (HTTPException 500 (''Failed to extract parameters: '' @ str_exn e), g)
              | (Inr agent, g) \<Rightarrow>
                  (case lookup_extract_flight_params agent of
                     Inl e \<Rightarrow> (HTTPException 500 (''Failed to extract parameters: '' @ str_exn e), g)
                   | Inr method \<Rightarrow>
                       (case method message of
                          Inl e \<Rightarrow> (HTTPException 500 (''Failed to extract parameters: '' @ str_exn e), g)
                        | Inr params \<Rightarrow> (Http200 (message, params), g)))))"


section \<open>Properties\<close>

subsection \<open>Auxiliary facts\<close>

lemma py_in_iff_sublist: "py_in needle hay = sublist needle hay"
  by (induction hay) (auto simp: sublist_Cons_right)

lemma date_le_iff_not_less: "date_le (a::date) b \<longleftrightarrow> \<not> date_less b a"
  by (cases a, cases b) (auto simp: date_le_def date_less_def)

lemma strptime_date_nonempty: "strptime_date s = Inr d \<Longrightarrow> s \<noteq> []"
  by (auto simp: strptime_date_def)

lemma dict_get_absent: "k \<notin> fst ` set d \<Longrightarrow> dict_get d k dflt = dflt"
  using map_of_eq_None_iff [of d k] by (simp add: dict_get_def)

lemma new_FlightSearchRequest_ok:
  "1 \<le> adults \<Longrightarrow> adults \<le> 9 \<Longrightarrow>
   new_FlightSearchRequest dc ac ob r adults tt tc =
     Inr \<lparr>fsr_departure_id = dc, fsr_arrival_id = ac,
          fsr_outbound_date = ob, fsr_return_date = r,
          fsr_adults = adults, fsr_children = 0, fsr_infants_in_seat = 0,
          fsr_infants_on_lap = 0, fsr_trip_type = tt,
          fsr_travel_class = tc, fsr_sort_by = TOP_FLIGHTS, fsr_stops = ANY,
          fsr_max_price = None, fsr_include_airlines = None,
          fsr_exclude_airlines = None, fsr_max_duration = None\<rparr>"
  by (simp add: new_FlightSearchRequest_def validate_return_date_def)

lemma return_date_step:
  assumes "falsy_str rd \<and> robj = None
           \<or> (\<exists>s r. rd = Some s \<and> strptime_date s = Inr r \<and> date_less ob r \<and> robj = Some r)"
  shows "(if falsy_str rd then Inr None
          else (case strptime_date (the rd) of
                  Inl _ \<Rightarrow> Inl (''Invalid return date format: '' @ the rd
                             @ ''. Please use YYYY-MM-DD format.'')
                | Inr r \<Rightarrow>
                    if date_le r ob
                    then Inl ''Return date must be after departure date.''
                    else Inr (Some r))) = Inr robj"
  using assms by (auto simp: date_le_iff_not_less falsy_str_def dest: strptime_date_nonempty)

lemma search_flights_built:
  assumes "resolve_airport_code svc dep = Inr dc" "\<not> falsy_str dc"
      and "resolve_airport_code svc arr = Inr ac" "\<not> falsy_str ac"
      and "strptime_date dd = Inr ob"
      and "falsy_str rd \<and> robj = None
           \<or> (\<exists>s r. rd = Some s \<and> strptime_date s = Inr r \<and> date_less ob r \<and> robj = Some r)"
      and "\<not> (tt = ''round_trip'' \<and> robj = None)"
      and "1 \<le> p" "p \<le> 9"
  shows "search_flights svc dep arr dd rd p tt tc =
     ProviderCall \<lparr>fsr_departure_id = the dc, fsr_arrival_id = the ac,
          fsr_outbound_date = ob, fsr_return_date = robj,
          fsr_adults = p, fsr_children = 0, fsr_infants_in_seat = 0,
          fsr_infants_on_lap = 0, fsr_trip_type = dict_get trip_type_map tt ROUND_TRIP,
          fsr_travel_class = dict_get class_map tc ECONOMY,
          fsr_sort_by = TOP_FLIGHTS, fsr_stops = ANY,
          fsr_max_price = None, fsr_include_airlines = None,
          fsr_exclude_airlines = None, fsr_max_duration = None\<rparr>"
  unfolding search_flights_def search_flights_try_def
  using assms(1-5,7-9) by (simp add: return_date_step [OF assms(6)] new_FlightSearchRequest_ok)

lemma search_flights_return_not_after:
  assumes "resolve_airport_code svc dep = Inr dc" "\<not> falsy_str dc"
      and "resolve_airport_code svc arr = Inr ac" "\<not> falsy_str ac"
      and "strptime_date dd = Inr ob"
      and "strptime_date s = Inr r" "date_le r ob"
  shows "search_flights svc dep arr dd (Some s) p tt tc
           = ToolError ''Return date must be after departure date.''"
  unfolding search_flights_def search_flights_try_def
  using assms strptime_date_nonempty [OF assms(6)] by (simp add: falsy_str_def)

lemma search_flights_return_missing:
  assumes "resolve_airport_code svc dep = Inr dc" "\<not> falsy_str dc"
      and "resolve_airport_code svc arr = Inr ac" "\<not> falsy_str ac"
      and "strptime_date dd = Inr ob"
      and "falsy_str rd"
  shows "search_flights svc dep arr dd rd p ''round_trip'' tc
           = ToolError ''Return date is required for round trip flights.''"
  unfolding search_flights_def search_flights_try_def
  using assms by simp

lemma collect_prices_none:
  "\<forall>p\<in>set props. \<not> carries_rate p \<Longrightarrow> collect_prices props = []"
  by (induction props)
     (auto simp: collect_prices_def truthy_rate_def carries_rate_def split: option.splits)



lemma prune_in_window:
  "\<forall>t\<in>set (prune requests now key window). t > now - real_of_int window"
  by (auto simp: prune_def split: option.splits)

lemma prune_length:
  assumes "0 \<le> limit" and "\<forall>ts. requests key = Some ts \<longrightarrow> int (length ts) \<le> limit"
  shows "int (length (prune requests now key window)) \<le> limit"
proof (cases "requests key")
  case None
  then show ?thesis using assms(1) by (simp add: prune_def)
next
  case (Some ts)
  have "int (length (filter (\<lambda>t. t > now - real_of_int window) ts)) \<le> int (length ts)"
    by simp
  also have "\<dots> \<le> limit" using Some assms(2) by simp
  finally show ?thesis using Some by (simp add: prune_def)
qed

lemma process_message_try_raises:
  "process_message_try invoked clock request = Inl e \<longleftrightarrow>
     invoked = Inl e
     \<or> (invoked = Inr [] \<and> e = ValueError ''No response from agent'')
     \<or> (\<exists>messages. invoked = Inr messages \<and> messages \<noteq> [] \<and> last_ai_message messages = None
           \<and> e = ValueError ''No AI response found'')
     \<or> (\<exists>messages. invoked = Inr messages \<and> messages \<noteq> [] \<and> last_ai_message messages \<noteq> None
           \<and> extract_params messages = Inl e)"
  by (cases invoked) (auto simp: process_message_try_def split: option.splits sum.splits)

lemma flight_params_of_empty_args:
  "flight_params_of empty_args =
     Inr \<lparr>fsp_departure_location = None, fsp_arrival_location = None,
          fsp_departure_date = None, fsp_return_date = None, fsp_passengers = 1,
          fsp_trip_type = ''round_trip'', fsp_travel_class = ''economy''\<rparr>"
  by (simp add: flight_params_of_def empty_args_def field_error_def)

lemma hotel_params_of_empty_args:
  "hotel_params_of empty_args =
     Inr \<lparr>hsp_location = None, hsp_check_in_date = None, hsp_check_out_date = None,
          hsp_guests = 2, hsp_rooms = 1, hsp_hotel_class = None, hsp_amenities = None,
          hsp_max_price = None, hsp_vacation_rental = False\<rparr>"
  by (simp add: hotel_params_of_def empty_args_def field_error_def)


lemma process_message_returns:
  "\<exists>response. process_message invoked clock1 clock2 request = Inr response"
  by (simp add: process_message_def split: sum.splits)


subsection \<open>Location resolver\<close>

text \<open>
  Claim C8. A location of exactly three alphabetic characters resolves to itself in upper
  case, whatever the service accessor does: also when it raises, and whatever table its
  suggestion method uses. The branch precedes any use of the service.
\<close>

theorem resolve_three_letter_code:
  assumes "length location = 3" and "py_isalpha location"
  shows "resolve_airport_code svc location = Inr (Some (py_upper location))"
  using assms by (simp add: resolve_airport_code_def)

theorem resolve_three_letter_code_witness:
  "length ''jfk'' = 3 \<and> py_isalpha ''jfk''
   \<and> resolve_airport_code (Inl (ValueError ''no key'')) ''jfk'' = Inr (Some ''JFK'')"
proof -
  have l: "length ''jfk'' = 3" by simp
  have a: "py_isalpha ''jfk''" by code_simp
  have u: "py_upper ''jfk'' = ''JFK''" by code_simp
  from resolve_three_letter_code [OF l a, of "Inl (ValueError ''no key'')"] l a u
  show ?thesis by simp
qed

subsection \<open>Flight search tool\<close>

text \<open>
  Claim C4, amended. For an invocation of \<open>search_flights\<close> whose two locations resolve and
  whose departure date parses: a return date that parses and is strictly after the outbound
  date gives a request handed to the provider, provided the passenger count lies between 1
  and 9; a return date that parses and is not after the outbound date gives the error
  "Return date must be after departure date."; the trip type "round_trip" with no return
  date gives the error "Return date is required for round trip flights.". In the two error
  cases the outcome is an error payload, so no request is built or issued.
\<close>

theorem search_flights_return_date_validation:
  assumes "resolve_airport_code svc dep = Inr dc" and "\<not> falsy_str dc"
      and "resolve_airport_code svc arr = Inr ac" and "\<not> falsy_str ac"
      and "strptime_date dd = Inr ob"
  shows "(\<forall>s r. rd = Some s \<and> strptime_date s = Inr r \<and> date_less ob r \<and> 1 \<le> p \<and> p \<le> 9 \<longrightarrow>
            search_flights svc dep arr dd rd p tt tc =
              ProviderCall \<lparr>fsr_departure_id = the dc, fsr_arrival_id = the ac,
                fsr_outbound_date = ob, fsr_return_date = Some r,
                fsr_adults = p, fsr_children = 0, fsr_infants_in_seat = 0,
                fsr_infants_on_lap = 0, fsr_trip_type = dict_get trip_type_map tt ROUND_TRIP,
                fsr_travel_class = dict_get class_map tc ECONOMY,
                fsr_sort_by = TOP_FLIGHTS, fsr_stops = ANY,
                fsr_max_price = None, fsr_include_airlines = None,
                fsr_exclude_airlines = None, fsr_max_duration = None\<rparr>)
       \<and> (\<forall>s r. rd = Some s \<and> strptime_date s = Inr r \<and> date_le r ob \<longrightarrow>
            search_flights svc dep arr dd rd p tt tc
              = ToolError ''Return date must be after departure date.'')
       \<and> (tt = ''round_trip'' \<and> falsy_str rd \<longrightarrow>
            search_flights svc dep arr dd rd p tt tc
              = ToolError ''Return date is required for round trip flights.'')"
proof (intro conjI allI impI)
  fix s r
  assume h: "rd = Some s \<and> strptime_date s = Inr r \<and> date_less ob r \<and> 1 \<le> p \<and> p \<le> 9"
  then have "falsy_str rd \<and> Some r = None
       \<or> (\<exists>s' r'. rd = Some s' \<and> strptime_date s' = Inr r' \<and> date_less ob r' \<and> Some r = Some r')"
    by blast
  from search_flights_built [OF assms this] h
  show "search_flights svc dep arr dd rd p tt tc =
              ProviderCall \<lparr>fsr_departure_id = the dc, fsr_arrival_id = the ac,
                fsr_outbound_date = ob, fsr_return_date = Some r,
                fsr_adults = p, fsr_children = 0, fsr_infants_in_seat = 0,
                fsr_infants_on_lap = 0, fsr_trip_type = dict_get trip_type_map tt ROUND_TRIP,
                fsr_travel_class = dict_get class_map tc ECONOMY,
                fsr_sort_by = TOP_FLIGHTS, fsr_stops = ANY,
                fsr_max_price = None, fsr_include_airlines = None,
                fsr_exclude_airlines = None, fsr_max_duration = None\<rparr>"
    by simp
next
  fix s r
  assume "rd = Some s \<and> strptime_date s = Inr r \<and> date_le r ob"
  with search_flights_return_not_after [OF assms, of s r]
  show "search_flights svc dep arr dd rd p tt tc
          = ToolError ''Return date must be after departure date.''"
    by simp
next
  assume "tt = ''round_trip'' \<and> falsy_str rd"
  with search_flights_return_missing [OF assms, of rd]
  show "search_flights svc dep arr dd rd p tt tc
          = ToolError ''Return date is required for round trip flights.''"
    by simp
qed

lemma resolve_JFK: "resolve_airport_code svc ''JFK'' = Inr (Some ''JFK'')"
  by (simp add: resolve_airport_code_def) code_simp

lemma resolve_LAX: "resolve_airport_code svc ''LAX'' = Inr (Some ''LAX'')"
  by (simp add: resolve_airport_code_def) code_simp

lemma parse_2026_01_10: "strptime_date ''2026-01-10'' = Inr \<lparr>year = 2026, month = 1, day = 10\<rparr>"
  by code_simp

lemma parse_2026_01_15: "strptime_date ''2026-01-15'' = Inr \<lparr>year = 2026, month = 1, day = 15\<rparr>"
  by code_simp

lemma parse_2026_01_05: "strptime_date ''2026-01-05'' = Inr \<lparr>year = 2026, month = 1, day = 5\<rparr>"
  by code_simp

theorem search_flights_return_date_validation_witness:
  "search_flights (get_serpapi_service (Some ''key'')) ''JFK'' ''LAX'' ''2026-01-10''
       (Some ''2026-01-15'') 2 ''round_trip'' ''business'' =
     ProviderCall \<lparr>fsr_departure_id = ''JFK'', fsr_arrival_id = ''LAX'',
        fsr_outbound_date = \<lparr>year = 2026, month = 1, day = 10\<rparr>,
        fsr_return_date = Some \<lparr>year = 2026, month = 1, day = 15\<rparr>,
        fsr_adults = 2, fsr_children = 0, fsr_infants_in_seat = 0,
        fsr_infants_on_lap = 0, fsr_trip_type = ROUND_TRIP,
        fsr_travel_class = BUSINESS, fsr_sort_by = TOP_FLIGHTS, fsr_stops = ANY,
        fsr_max_price = None, fsr_include_airlines = None,
        fsr_exclude_airlines = None, fsr_max_duration = None\<rparr>
   \<and> search_flights (get_serpapi_service (Some ''key'')) ''JFK'' ''LAX'' ''2026-01-10''
       (Some ''2026-01-05'') 2 ''round_trip'' ''business''
       = ToolError ''Return date must be after departure date.''
   \<and> search_flights (get_serpapi_service (Some ''key'')) ''JFK'' ''LAX'' ''2026-01-10''
       None 2 ''round_trip'' ''business''
       = ToolError ''Return date is required for round trip flights.''"
proof -
  let ?svc = "get_serpapi_service (Some ''key'')"
  have f: "\<not> falsy_str (Some ''JFK'')" "\<not> falsy_str (Some ''LAX'')" "falsy_str None"
    by (simp_all add: falsy_str_def)
  have lt: "date_less \<lparr>year = 2026, month = 1, day = 10\<rparr> \<lparr>year = 2026, month = 1, day = 15\<rparr>"
    by (simp add: date_less_def)
  have le: "date_le \<lparr>year = 2026, month = 1, day = 5\<rparr> \<lparr>year = 2026, month = 1, day = 10\<rparr>"
    by (simp add: date_le_def date_less_def)
  have tm: "dict_get trip_type_map ''round_trip'' ROUND_TRIP = ROUND_TRIP"
    by (simp add: dict_get_def trip_type_map_def)
  have cm: "dict_get class_map ''business'' ECONOMY = BUSINESS"
    by (simp add: dict_get_def class_map_def)
  note inst = search_flights_return_date_validation
        [where svc = ?svc and dep = "''JFK''" and arr = "''LAX''" and dd = "''2026-01-10''"
           and p = 2 and tt = "''round_trip''" and tc = "''business''",
         OF resolve_JFK f(1) resolve_LAX f(2) parse_2026_01_10]
  from inst [where rd = "Some ''2026-01-15''"] parse_2026_01_15 lt tm cm
  have a: "search_flights ?svc ''JFK'' ''LAX'' ''2026-01-10''
       (Some ''2026-01-15'') 2 ''round_trip'' ''business'' =
     ProviderCall \<lparr>fsr_departure_id = ''JFK'', fsr_arrival_id = ''LAX'',
        fsr_outbound_date = \<lparr>year = 2026, month = 1, day = 10\<rparr>,
        fsr_return_date = Some \<lparr>year = 2026, month = 1, day = 15\<rparr>,
        fsr_adults = 2, fsr_children = 0, fsr_infants_in_seat = 0,
        fsr_infants_on_lap = 0, fsr_trip_type = ROUND_TRIP,
        fsr_travel_class = BUSINESS, fsr_sort_by = TOP_FLIGHTS, fsr_stops = ANY,
        fsr_max_price = None, fsr_include_airlines = None,
        fsr_exclude_airlines = None, fsr_max_duration = None\<rparr>"
    by simp
  from inst [where rd = "Some ''2026-01-05''"] parse_2026_01_05 le
  have b: "search_flights ?svc ''JFK'' ''LAX'' ''2026-01-10''
       (Some ''2026-01-05'') 2 ''round_trip'' ''business''
       = ToolError ''Return date must be after departure date.''"
    by simp
  from inst [where rd = None] f(3)
  have c: "search_flights ?svc ''JFK'' ''LAX'' ''2026-01-10''
       None 2 ''round_trip'' ''business''
       = ToolError ''Return date is required for round trip flights.''"
    by simp
  from a b c show ?thesis by blast
qed

text \<open>
  The claim as stated, without a bound on the passenger count, fails: with no passenger the
  locations resolve, both dates parse and the return date is after the outbound date, yet
  the constructor of the request rejects \<open>adults = 0\<close> and the tool answers with an error.
\<close>

theorem search_flights_passengers_counterexample:
  "resolve_airport_code (get_serpapi_service (Some ''key'')) ''JFK'' = Inr (Some ''JFK'')
   \<and> resolve_airport_code (get_serpapi_service (Some ''key'')) ''LAX'' = Inr (Some ''LAX'')
   \<and> strptime_date ''2026-01-10'' = Inr \<lparr>year = 2026, month = 1, day = 10\<rparr>
   \<and> strptime_date ''2026-01-15'' = Inr \<lparr>year = 2026, month = 1, day = 15\<rparr>
   \<and> date_less \<lparr>year = 2026, month = 1, day = 10\<rparr> \<lparr>year = 2026, month = 1, day = 15\<rparr>
   \<and> search_flights (get_serpapi_service (Some ''key'')) ''JFK'' ''LAX'' ''2026-01-10''
        (Some ''2026-01-15'') 0 ''round_trip'' ''economy''
        = ToolError (''Flight search failed: '' @ str_exn (ValidationError [''adults'']))"
proof -
  have lt: "date_less \<lparr>year = 2026, month = 1, day = 10\<rparr> \<lparr>year = 2026, month = 1, day = 15\<rparr>"
    by (simp add: date_less_def)
  have nf: "\<not> falsy_str (Some ''2026-01-15'')" "\<not> falsy_str (Some ''JFK'')" "\<not> falsy_str (Some ''LAX'')"
    by (simp_all add: falsy_str_def)
  have le: "\<not> date_le \<lparr>year = 2026, month = 1, day = 15\<rparr> \<lparr>year = 2026, month = 1, day = 10\<rparr>"
    by (simp add: date_le_def date_less_def)
  have bad: "new_FlightSearchRequest ''JFK'' ''LAX'' \<lparr>year = 2026, month = 1, day = 10\<rparr>
       (Some \<lparr>year = 2026, month = 1, day = 15\<rparr>) 0 ROUND_TRIP ECONOMY
       = Inl (ValidationError [''adults''])"
    by (simp add: new_FlightSearchRequest_def validate_return_date_def)
  have tm: "dict_get trip_type_map ''round_trip'' ROUND_TRIP = ROUND_TRIP"
    by (simp add: dict_get_def trip_type_map_def)
  have cm: "dict_get class_map ''economy'' ECONOMY = ECONOMY"
    by (simp add: dict_get_def class_map_def)
  have "search_flights (get_serpapi_service (Some ''key'')) ''JFK'' ''LAX'' ''2026-01-10''
        (Some ''2026-01-15'') 0 ''round_trip'' ''economy''
        = ToolError (''Flight search failed: '' @ str_exn (ValidationError [''adults'']))"
    unfolding search_flights_def search_flights_try_def
    by (simp only: resolve_JFK resolve_LAX parse_2026_01_10 parse_2026_01_15 nf le bad tm cm
          sum.case if_False if_True option.sel option.distinct simp_thms)
  with resolve_JFK resolve_LAX parse_2026_01_10 parse_2026_01_15 lt show ?thesis by blast
qed


text \<open>
  Claim C5. An invocation whose trip-type token or travel-class token is outside the lookup
  tables, all other inputs being valid (locations resolve, the departure date parses, the
  return date is absent or parses to a date after the outbound date, a known token
  "round_trip" comes with a return date, one to nine passengers), returns no error: the
  request is built and handed to the provider, with trip type ROUND_TRIP for an unknown
  trip-type token and travel class ECONOMY for an unknown travel-class token.
\<close>

theorem search_flights_unknown_tokens_default:
  assumes "tt \<notin> fst ` set trip_type_map \<or> tc \<notin> fst ` set class_map"
      and "resolve_airport_code svc dep = Inr dc" and "\<not> falsy_str dc"
      and "resolve_airport_code svc arr = Inr ac" and "\<not> falsy_str ac"
      and "strptime_date dd = Inr ob"
      and "falsy_str rd \<and> robj = None
           \<or> (\<exists>s r. rd = Some s \<and> strptime_date s = Inr r \<and> date_less ob r \<and> robj = Some r)"
      and "\<not> (tt = ''round_trip'' \<and> robj = None)"
      and "1 \<le> p" and "p \<le> 9"
  shows "\<exists>req. search_flights svc dep arr dd rd p tt tc = ProviderCall req
           \<and> fsr_return_date req = robj
           \<and> fsr_trip_type req = dict_get trip_type_map tt ROUND_TRIP
           \<and> fsr_travel_class req = dict_get class_map tc ECONOMY
           \<and> (tt \<notin> fst ` set trip_type_map \<longrightarrow> fsr_trip_type req = ROUND_TRIP)
           \<and> (tc \<notin> fst ` set class_map \<longrightarrow> fsr_travel_class req = ECONOMY)"
  using search_flights_built [OF assms(2-10), of tc]
  by (simp add: dict_get_absent)

theorem search_flights_unknown_tokens_default_witness:
  "\<exists>req. search_flights (get_serpapi_service (Some ''key'')) ''JFK'' ''LAX'' ''2026-01-10''
            None 1 ''open_jaw'' ''luxury'' = ProviderCall req
         \<and> fsr_return_date req = None
         \<and> fsr_trip_type req = ROUND_TRIP \<and> fsr_travel_class req = ECONOMY"
proof -
  have u: "''open_jaw'' \<notin> fst ` set trip_type_map \<or> ''luxury'' \<notin> fst ` set class_map"
    by (simp add: trip_type_map_def)
  have u1: "''open_jaw'' \<notin> fst ` set trip_type_map"
    by (simp add: trip_type_map_def)
  have u2: "''luxury'' \<notin> fst ` set class_map"
    by (simp add: class_map_def)
  have f: "\<not> falsy_str (Some ''JFK'')" "\<not> falsy_str (Some ''LAX'')"
    by (simp_all add: falsy_str_def)
  have r: "falsy_str None \<and> (None :: date option) = None
           \<or> (\<exists>s r. None = Some s \<and> strptime_date s = Inr r
                 \<and> date_less \<lparr>year = 2026, month = 1, day = 10\<rparr> r \<and> None = Some r)"
    by (simp add: falsy_str_def)
  have n: "\<not> (''open_jaw'' = ''round_trip'' \<and> (None :: date option) = None)" by simp
  have p: "(1::int) \<le> 1" "(1::int) \<le> 9" by simp_all
  from search_flights_unknown_tokens_default
         [where svc = "get_serpapi_service (Some ''key'')",
          OF u resolve_JFK f(1) resolve_LAX f(2) parse_2026_01_10 r n p] u1 u2
  show ?thesis by auto
qed

subsection \<open>Hotel search tool\<close>

text \<open>
  Claim C6. When both dates of a \<open>search_hotels\<close> invocation parse and the check-out date is
  not after the check-in date, the tool returns the error "Check-out date must be after
  check-in date."; the outcome is an error payload, so no request reaches the provider.
\<close>

theorem search_hotels_inverted_dates:
  assumes "strptime_date check_in_date = Inr check_in"
      and "strptime_date check_out_date = Inr check_out"
      and "date_le check_out check_in"
  shows "search_hotels location check_in_date check_out_date guests rooms sort_by max_price
           hotel_class vacation_rental
         = ToolError ''Check-out date must be after check-in date.''"
  using assms by (simp add: search_hotels_def search_hotels_try_def)

theorem search_hotels_inverted_dates_witness:
  "strptime_date ''2026-02-01'' = Inr \<lparr>year = 2026, month = 2, day = 1\<rparr>
   \<and> strptime_date ''2026-01-30'' = Inr \<lparr>year = 2026, month = 1, day = 30\<rparr>
   \<and> date_le \<lparr>year = 2026, month = 1, day = 30\<rparr> \<lparr>year = 2026, month = 2, day = 1\<rparr>
   \<and> search_hotels ''Paris'' ''2026-02-01'' ''2026-01-30'' 2 1 ''relevance'' None None False
        = ToolError ''Check-out date must be after check-in date.''"
proof -
  have a: "strptime_date ''2026-02-01'' = Inr \<lparr>year = 2026, month = 2, day = 1\<rparr>"
    by code_simp
  have b: "strptime_date ''2026-01-30'' = Inr \<lparr>year = 2026, month = 1, day = 30\<rparr>"
    by code_simp
  have c: "date_le \<lparr>year = 2026, month = 1, day = 30\<rparr> \<lparr>year = 2026, month = 2, day = 1\<rparr>"
    by (simp add: date_le_def date_less_def)
  from search_hotels_inverted_dates [OF a b c] a b c show ?thesis by blast
qed

text \<open>
  Claim C9. The price range of the hotel summary never raises, and it stays \<open>None\<close> when the
  provider returned no property or when no property carries an extracted lowest nightly
  rate: \<open>min\<close> and \<open>max\<close> are applied to a list of rates that is not empty only.
\<close>

theorem hotel_price_range_absent:
  "(\<exists>r. hotel_price_range properties = Inr r)
   \<and> (properties = [] \<or> (\<forall>p\<in>set properties. \<not> carries_rate p)
        \<longrightarrow> hotel_price_range properties = Inr None)"
proof
  show "\<exists>r. hotel_price_range properties = Inr r"
    by (auto simp: hotel_price_range_def py_min_def py_max_def Let_def split: list.splits)
  show "properties = [] \<or> (\<forall>p\<in>set properties. \<not> carries_rate p)
        \<longrightarrow> hotel_price_range properties = Inr None"
    using collect_prices_none [of properties] by (auto simp: hotel_price_range_def)
qed

theorem hotel_price_range_absent_witness:
  "hotel_price_range [] = Inr None
   \<and> \<not> carries_rate \<lparr>hp_type = ''hotel'', hp_name = ''Inn'', hp_rate_per_night = None,
         hp_hotel_class = None, hp_overall_rating = None, hp_reviews = None,
         hp_location_rating = None, hp_amenities = []\<rparr>
   \<and> hotel_price_range [\<lparr>hp_type = ''hotel'', hp_name = ''Inn'', hp_rate_per_night = None,
         hp_hotel_class = None, hp_overall_rating = None, hp_reviews = None,
         hp_location_rating = None, hp_amenities = []\<rparr>] = Inr None"
proof -
  let ?p = "\<lparr>hp_type = ''hotel'', hp_name = ''Inn'', hp_rate_per_night = None,
         hp_hotel_class = None, hp_overall_rating = None, hp_reviews = None,
         hp_location_rating = None, hp_amenities = []\<rparr>"
  have c: "\<not> carries_rate ?p" by (simp add: carries_rate_def)
  from hotel_price_range_absent [of "[]"] have a: "hotel_price_range [] = Inr None" by simp
  from hotel_price_range_absent [of "[?p]"] c have b: "hotel_price_range [?p] = Inr None"
    by simp
  from a b c show ?thesis by blast
qed


subsection \<open>Chat turn\<close>

text \<open>
  Claim C1 says that the aggregate \<open>search_type\<close> only widens within one extraction pass, so
  that the calls flight, hotel, flight end with the tag "both". The code does not do that:
  after a flight call and a hotel call the tag is BOTH, and the next \<open>search_flights\<close> call
  sets it to FLIGHT, because the update tests for HOTEL only. The theorem evaluates the pass
  on the three prefixes of that call sequence, for any arguments from which the parameter
  objects are built.
\<close>

theorem extraction_tag_reverts_after_both:
  assumes "flight_params_of a1 = Inr f1"
      and "hotel_params_of a2 = Inr h2"
      and "flight_params_of a3 = Inr f3"
  shows "map_sum id (map_option tsp_search_type) (extract_params [AIMessage content
            [\<lparr>tc_name = ''search_flights'', tc_args = a1\<rparr>]]) = Inr (Some FLIGHT)
       \<and> map_sum id (map_option tsp_search_type) (extract_params [AIMessage content
            [\<lparr>tc_name = ''search_flights'', tc_args = a1\<rparr>,
             \<lparr>tc_name = ''search_hotels'', tc_args = a2\<rparr>]]) = Inr (Some BOTH)
       \<and> map_sum id (map_option tsp_search_type) (extract_params [AIMessage content
            [\<lparr>tc_name = ''search_flights'', tc_args = a1\<rparr>,
             \<lparr>tc_name = ''search_hotels'', tc_args = a2\<rparr>,
             \<lparr>tc_name = ''search_flights'', tc_args = a3\<rparr>]]) = Inr (Some FLIGHT)"
  using assms
  by (simp add: extract_params_def on_tool_call_def on_search_flights_def on_search_hotels_def)

theorem extraction_tag_reverts_after_both_witness:
  "map_sum id (map_option tsp_search_type) (extract_params [AIMessage ''ok''
      [\<lparr>tc_name = ''search_flights'', tc_args = empty_args\<rparr>,
       \<lparr>tc_name = ''search_hotels'', tc_args = empty_args\<rparr>]]) = Inr (Some BOTH)
   \<and> map_sum id (map_option tsp_search_type) (extract_params [AIMessage ''ok''
      [\<lparr>tc_name = ''search_flights'', tc_args = empty_args\<rparr>,
       \<lparr>tc_name = ''search_hotels'', tc_args = empty_args\<rparr>,
       \<lparr>tc_name = ''search_flights'', tc_args = empty_args\<rparr>]]) = Inr (Some FLIGHT)"
  using extraction_tag_reverts_after_both
          [OF flight_params_of_empty_args hotel_params_of_empty_args
              flight_params_of_empty_args, of "''ok''"]
  by blast




text \<open>
  Claim C3. Whatever exception the body of \<open>process_message\<close> raises, \<open>process_message\<close>
  returns a response instead of raising: the apology text around the text of the
  exception, \<open>needs_clarification\<close> true, the thread id of the request when it has one (and
  it is not empty) and a fresh one otherwise, no flight and no hotel results. The chat
  endpoint then answers 200 with that response.
\<close>

theorem process_message_never_raises:
  assumes "process_message_try invoked clock1 request = Inl e"
  shows "\<exists>response.
           process_message invoked clock1 clock2 request = Inr response
           \<and> send_message None invoked clock1 clock2 request = Http200 response
           \<and> cr_message response =
               ''I apologize, but I encountered an error while processing your request: ''
               @ str_exn e @ ''. Please try again or rephrase your question.''
           \<and> cr_needs_clarification response
           \<and> cr_thread_id response =
               (case rq_thread_id request of
                  None \<Rightarrow> ''thread_'' @ clock2
                | Some t \<Rightarrow> if t = [] then ''thread_'' @ clock2 else t)
           \<and> cr_flight_results response = None
           \<and> cr_hotel_results response = None
           \<and> cr_extracted_params response = None
           \<and> cr_missing_params response = []"
  using assms
  by (simp add: process_message_def send_message_def error_response_def thread_id_or_def
        falsy_str_def split: option.splits)

theorem process_message_never_raises_witness:
  "process_message_try (Inl (ExternalError ''timeout'')) ''1''
       \<lparr>rq_message = ''hello'', rq_thread_id = Some ''t1''\<rparr> = Inl (ExternalError ''timeout'')
   \<and> (\<exists>response.
         process_message (Inl (ExternalError ''timeout'')) ''1'' ''2''
           \<lparr>rq_message = ''hello'', rq_thread_id = Some ''t1''\<rparr> = Inr response
         \<and> send_message None (Inl (ExternalError ''timeout'')) ''1'' ''2''
           \<lparr>rq_message = ''hello'', rq_thread_id = Some ''t1''\<rparr> = Http200 response
         \<and> cr_message response =
             ''I apologize, but I encountered an error while processing your request: timeout. Please try again or rephrase your question.''
         \<and> cr_needs_clarification response
         \<and> cr_thread_id response = ''t1'')"
proof -
  have b: "process_message_try (Inl (ExternalError ''timeout'')) ''1''
       \<lparr>rq_message = ''hello'', rq_thread_id = Some ''t1''\<rparr> = Inl (ExternalError ''timeout'')"
    by (simp add: process_message_try_def)
  from process_message_never_raises [OF b, of "''2''"] b show ?thesis
    by auto
qed

subsection \<open>Rate limiter\<close>

text \<open>
  Claim C10, amended. After \<open>is_allowed\<close> the ledger holds a list for the key of the call.
  The answer is False exactly when the pruned list holds at least \<open>limit\<close> entries; a denied
  call stores the pruned list and appends nothing, an allowed call appends \<open>now\<close>; the lists
  of the other keys are untouched. For a positive window every stored timestamp of the key
  is later than \<open>now - window\<close>. When the list of the key (empty when the key is new) was no
  longer than the limit before the call, the stored list is no longer than the limit after
  it, and the answer is False exactly when the pruned list holds \<open>limit\<close> entries.
\<close>

theorem is_allowed_preserves_ledger_invariant:
  "\<exists>stored.
     snd (is_allowed requests now key limit window) key = Some stored
     \<and> (\<not> fst (is_allowed requests now key limit window)
          \<longleftrightarrow> limit \<le> int (length (prune requests now key window)))
     \<and> (\<not> fst (is_allowed requests now key limit window)
          \<longrightarrow> stored = prune requests now key window)
     \<and> (fst (is_allowed requests now key limit window)
          \<longrightarrow> stored = prune requests now key window @ [now])
     \<and> (\<forall>k. k \<noteq> key \<longrightarrow> snd (is_allowed requests now key limit window) k = requests k)
     \<and> (0 < window \<longrightarrow> (\<forall>t\<in>set stored. t > now - real_of_int window))
     \<and> (int (length (case requests key of None \<Rightarrow> [] | Some ts \<Rightarrow> ts)) \<le> limit
          \<longrightarrow> int (length stored) \<le> limit
              \<and> (\<not> fst (is_allowed requests now key limit window)
                   \<longleftrightarrow> int (length (prune requests now key window)) = limit))"
proof -
  have len: "int (length (prune requests now key window)) \<le> limit"
    if "int (length (case requests key of None \<Rightarrow> [] | Some ts \<Rightarrow> ts)) \<le> limit"
  proof (rule prune_length [where requests = requests and key = key])
    show "0 \<le> limit" using that by (simp split: option.splits)
    show "\<forall>ts. requests key = Some ts \<longrightarrow> int (length ts) \<le> limit" using that by (simp split: option.splits)
  qed
  show ?thesis
    using len prune_in_window [of requests now key window]
    by (auto simp: is_allowed_def Let_def)
qed

theorem is_allowed_preserves_ledger_invariant_witness:
  "\<not> fst (is_allowed (map_of [(''anonymous'', [100, 3000, 3500])]) 4000 ''anonymous'' 2 3600)
   \<and> snd (is_allowed (map_of [(''anonymous'', [100, 3000, 3500])]) 4000 ''anonymous'' 2 3600)
        ''anonymous'' = Some [3000, 3500]
   \<and> fst (is_allowed (map_of [(''anonymous'', [100, 3000])]) 4000 ''anonymous'' 2 3600)
   \<and> snd (is_allowed (map_of [(''anonymous'', [100, 3000])]) 4000 ''anonymous'' 2 3600)
        ''anonymous'' = Some [3000, 4000]"
proof -
  have p: "prune (map_of [(''anonymous'', [100, 3000, 3500])]) 4000 ''anonymous'' 3600 = [3000, 3500]"
    by (simp add: prune_def)
  have q: "prune (map_of [(''anonymous'', [100, 3000])]) 4000 ''anonymous'' 3600 = [3000]"
    by (simp add: prune_def)
  from is_allowed_preserves_ledger_invariant
         [where requests = "map_of [(''anonymous'', [100, 3000, 3500])]"
            and key = "''anonymous''" and now = 4000 and limit = 2 and window = 3600] p
  have a: "\<not> fst (is_allowed (map_of [(''anonymous'', [100, 3000, 3500])]) 4000 ''anonymous'' 2 3600)
   \<and> snd (is_allowed (map_of [(''anonymous'', [100, 3000, 3500])]) 4000 ''anonymous'' 2 3600)
        ''anonymous'' = Some [3000, 3500]"
    by auto
  from is_allowed_preserves_ledger_invariant
         [where requests = "map_of [(''anonymous'', [100, 3000])]"
            and key = "''anonymous''" and now = 4000 and limit = 2 and window = 3600] q
  have b: "fst (is_allowed (map_of [(''anonymous'', [100, 3000])]) 4000 ''anonymous'' 2 3600)
   \<and> snd (is_allowed (map_of [(''anonymous'', [100, 3000])]) 4000 ''anonymous'' 2 3600)
        ''anonymous'' = Some [3000, 4000]"
    by auto
  from a b show ?thesis by blast
qed

text \<open>
  The claim as stated, for any call, fails. With a window of zero an allowed call stores
  \<open>now\<close>, which is not later than \<open>now - window\<close>. And a list that is longer than the limit
  before the call (the limit is an argument of each call) is still longer after a denied
  call.
\<close>

theorem is_allowed_ledger_counterexample:
  "fst (is_allowed (map_of ([] :: (string \<times> real list) list)) 4000 ''anonymous'' 2 0)
   \<and> snd (is_allowed (map_of ([] :: (string \<times> real list) list)) 4000 ''anonymous'' 2 0)
        ''anonymous'' = Some [4000]
   \<and> \<not> (4000 :: real) > 4000 - real_of_int 0
   \<and> \<not> fst (is_allowed (map_of [(''anonymous'', [3000, 3500, 3600])]) 4000 ''anonymous'' 2 3600)
   \<and> snd (is_allowed (map_of [(''anonymous'', [3000, 3500, 3600])]) 4000 ''anonymous'' 2 3600)
        ''anonymous'' = Some [3000, 3500, 3600]
   \<and> \<not> int (length [3000, 3500, 3600 :: real]) \<le> 2"
  by (simp add: is_allowed_def prune_def)

subsection \<open>Debug endpoint\<close>

text \<open>
  Claim C7 is about the extractor that the endpoint runs on the message. The endpoint does
  not run it: the agent that \<open>get_travel_agent()\<close> yields is a \<open>TravelAgent\<close>, which has no
  method \<open>extract_flight_params\<close>, so for every message that is not empty and from every
  global that the accessor can have left (none yet, or a \<open>TravelAgent\<close>) the endpoint
  answers with the error 500 that carries the AttributeError.
\<close>

theorem extract_params_endpoint_attribute_error:
  assumes "request ''message'' = Some message" and "message \<noteq> []"
      and "global_agent = None \<or> global_agent = Some TravelAgent"
  shows "fst (extract_params_endpoint None global_agent request)
           = HTTPException 500 (''Failed to extract parameters: '' @ quoted ''TravelAgent''
               @ '' object has no attribute '' @ quoted ''extract_flight_params'')"
  using assms
  by (auto simp: extract_params_endpoint_def get_travel_agent_def)

theorem extract_params_endpoint_attribute_error_witness:
  "fst (extract_params_endpoint None None
          (map_of [(''message'', ''flights from JFK to LAX on 2026-01-10'')]))
     = HTTPException 500 (''Failed to extract parameters: '' @ quoted ''TravelAgent''
         @ '' object has no attribute '' @ quoted ''extract_flight_params'')
   \<and> extract_flight_params ''flights from JFK to LAX on 2026-01-10''
     = Inr \<lparr>fsp_departure_location = Some ''jfk'', fsp_arrival_location = Some ''lax'',
            fsp_departure_date = Some ''2026-01-10'', fsp_return_date = None,
            fsp_passengers = 1, fsp_trip_type = ''round_trip'',
            fsp_travel_class = ''economy''\<rparr>"
proof -
  have m: "map_of [(''message'', ''flights from JFK to LAX on 2026-01-10'')] ''message''
             = Some ''flights from JFK to LAX on 2026-01-10''"
    by simp
  have n: "''flights from JFK to LAX on 2026-01-10'' \<noteq> []" by simp
  have g: "(None :: agent_class option) = None \<or> None = Some TravelAgent" by simp
  have x: "extract_flight_params ''flights from JFK to LAX on 2026-01-10''
     = Inr \<lparr>fsp_departure_location = Some ''jfk'', fsp_arrival_location = Some ''lax'',
            fsp_departure_date = Some ''2026-01-10'', fsp_return_date = None,
            fsp_passengers = 1, fsp_trip_type = ''round_trip'',
            fsp_travel_class = ''economy''\<rparr>"
    by code_simp
  from extract_params_endpoint_attribute_error
         [where request = "map_of [(''message'', ''flights from JFK to LAX on 2026-01-10'')]",
          OF m n g] x
  show ?thesis by blast
qed

end
